theory Spec2Isabelle
  imports Complex_Main "HOL-Library.Char_ord" "HOL-Library.List_Lexorder"
begin

unbundle bit_operations_syntax

section \<open>Python values used by the services\<close>

text \<open>
  Python floats are modelled as exact rationals (\<open>rat\<close>): sums, products and quotients are
  the exact ones, and a division by zero is the exception Python raises. Exceptions are
  values of \<open>py_error\<close>; a function that can raise returns \<open>py_error + 'a\<close>.
\<close>

datatype py_error = IndexError | ZeroDivisionError | ValueError | OverflowError | HTTP404

text \<open>
  Python's integers are unbounded, its floats are not: dividing an \<open>int\<close> by a float first
  converts the \<open>int\<close>, rounding to the nearest double, and raises \<open>OverflowError\<close> when the
  result is beyond the largest finite double, that is from \<open>2 ** 1024 - 2 ** 970\<close> on in
  absolute value.
\<close>

definition float_limit :: int where
  "float_limit = 2 ^ 1024 - 2 ^ 970"

definition float_of_int_overflows :: "int \<Rightarrow> bool" where
  "float_of_int_overflows n = (float_limit \<le> \<bar>n\<bar>)"

text \<open>Truth value of an \<open>Optional[str]\<close>: \<open>None\<close> and the empty string are falsy.\<close>

definition truthy :: "string option \<Rightarrow> bool" where
  "truthy t = (case t of None \<Rightarrow> False | Some s \<Rightarrow> s \<noteq> [])"

text \<open>
  A \<open>dict\<close> keeps its keys in insertion order; assigning to an existing key keeps the key's
  position. It is an association list with distinct keys.
\<close>

fun dict_get :: "('k \<times> 'v) list \<Rightarrow> 'k \<Rightarrow> 'v \<Rightarrow> 'v" where
  "dict_get [] k d = d"
| "dict_get ((k', v) # kvs) k d = (if k' = k then v else dict_get kvs k d)"

fun dict_set :: "('k \<times> 'v) list \<Rightarrow> 'k \<Rightarrow> 'v \<Rightarrow> ('k \<times> 'v) list" where
  "dict_set [] k v = [(k, v)]"
| "dict_set ((k', v') # kvs) k v =
     (if k' = k then (k, v) # kvs else (k', v') # dict_set kvs k v)"

text \<open>
  \<open>max(d.items(), key=lambda x: x[1])\<close>: the first item, in iteration order, whose value is
  maximal (a later item replaces the best one only when strictly greater).
\<close>

fun max_by_value :: "('k \<times> rat) \<Rightarrow> ('k \<times> rat) list \<Rightarrow> ('k \<times> rat)" where
  "max_by_value best [] = best"
| "max_by_value best (kv # kvs) =
     max_by_value (if snd best < snd kv then kv else best) kvs"

text \<open>\<open>round(x)\<close> to the nearest integer, ties to the even one; \<open>round(x, 2)\<close> on top of it.\<close>

definition round_half_even :: "rat \<Rightarrow> int" where
  "round_half_even x =
     (let f = \<lfloor>x\<rfloor>; d = x - of_int f
      in if d < 1 / 2 then f else if 1 / 2 < d then f + 1
         else if even f then f else f + 1)"

definition round2 :: "rat \<Rightarrow> rat" where
  "round2 x = of_int (round_half_even (x * 100)) / 100"

text \<open>\<open>int(x)\<close> truncates towards zero.\<close>

definition py_int :: "rat \<Rightarrow> int" where
  "py_int x = (if 0 \<le> x then \<lfloor>x\<rfloor> else \<lceil>x\<rceil>)"

section \<open>Settings (app/core/config.py)\<close>

record Settings =
  ZONE_CONTROL_THRESHOLD_KM :: rat
  ZONE_DEFENSE_MULTIPLIER :: rat
  ACTIVITY_POINTS_PER_KM :: int
  TEAM_ACTIVITY_BONUS :: rat
  GYM_ACTIVITY_MULTIPLIER :: rat

definition settings :: Settings where
  "settings = \<lparr>ZONE_CONTROL_THRESHOLD_KM = 5, ZONE_DEFENSE_MULTIPLIER = 6 / 5,
     ACTIVITY_POINTS_PER_KM = 10, TEAM_ACTIVITY_BONUS = 11 / 10,
     GYM_ACTIVITY_MULTIPLIER = 4 / 5\<rparr>"

section \<open>Zone control (app/services/zone_control.py)\<close>

text \<open>The columns of a \<open>zones\<close> row that recalculation reads or writes.\<close>

record zone =
  controlled_by_team :: "string option"
  controlled_by_user :: "string option"
  control_percentage :: rat

text \<open>A \<open>zone_activities\<close> row as selected by the recalculation query.\<close>

record zone_activity =
  team_id :: "string option"
  user_id :: string
  distance_km :: rat

text \<open>A \<open>zone_control_history\<close> row.\<close>

record history_entry =
  previous_team :: "string option"
  new_team :: string

text \<open>
  The writes recalculation issues: the \<open>update_data\<close> of the zone row (team, percentage and,
  when the key is present, user) and the history insert.
\<close>

datatype db_write =
    UpdateZone string rat "string option"
  | InsertHistory history_entry

text \<open>One iteration of the loop that fills \<open>team_km\<close> and \<open>user_km\<close>.\<close>

definition tally_step ::
  "(string \<times> rat) list \<times> (string \<times> rat) list \<Rightarrow> zone_activity
     \<Rightarrow> (string \<times> rat) list \<times> (string \<times> rat) list" where
  "tally_step acc activity =
     (let team_km = fst acc; user_km = snd acc;
          tid = team_id activity; uid = user_id activity; km = distance_km activity
      in ((case tid of
             Some t \<Rightarrow> if t \<noteq> [] then dict_set team_km t (dict_get team_km t 0 + km)
                       else team_km
           | None \<Rightarrow> team_km),
          dict_set user_km uid (dict_get user_km uid 0 + km)))"

definition tally ::
  "zone_activity list \<Rightarrow> (string \<times> rat) list \<times> (string \<times> rat) list" where
  "tally activities = foldl tally_step ([], []) activities"

definition team_km :: "zone_activity list \<Rightarrow> (string \<times> rat) list" where
  "team_km activities = fst (tally activities)"

definition user_km :: "zone_activity list \<Rightarrow> (string \<times> rat) list" where
  "user_km activities = snd (tally activities)"

text \<open>\<open>max(team_km.items(), key=...)\<close>, evaluated only when \<open>team_km\<close> is not empty.\<close>

definition controlling_team :: "zone_activity list \<Rightarrow> (string \<times> rat) option" where
  "controlling_team activities =
     (case team_km activities of [] \<Rightarrow> None | kv # kvs \<Rightarrow> Some (max_by_value kv kvs))"

text \<open>The defense bonus applies when the zone's controller is the team just selected.\<close>

definition controlling_km :: "Settings \<Rightarrow> zone \<Rightarrow> string \<times> rat \<Rightarrow> rat" where
  "controlling_km s z ct =
     (if controlled_by_team z = Some (fst ct) then snd ct * ZONE_DEFENSE_MULTIPLIER s
      else snd ct)"

text \<open>The users of \<open>user_km\<close> with at least one windowed activity for \<open>new_team\<close>.\<close>

definition team_users :: "zone_activity list \<Rightarrow> string \<Rightarrow> (string \<times> rat) list" where
  "team_users activities nt =
     filter (\<lambda>kv. list_ex (\<lambda>a. user_id a = fst kv \<and> team_id a = Some nt) activities)
       (user_km activities)"

text \<open>
  \<open>_recalculate_zone_control\<close> on the zone row read at its start and the rows of the
  30-day window: the returned flag and the writes issued, in order.
\<close>

definition recalculate_zone_control ::
  "Settings \<Rightarrow> zone \<Rightarrow> zone_activity list \<Rightarrow> py_error + (bool \<times> db_write list)" where
  "recalculate_zone_control s z activities =
     (if activities = [] then Inr (False, [])
      else case controlling_team activities of
        None \<Rightarrow> Inr (False, [])
      | Some ct \<Rightarrow>
          let total_km = sum_list (map snd (team_km activities));
              ckm = controlling_km s z ct
          in if total_km = 0 then Inl ZeroDivisionError
             else
               let pct = min 100 (ckm / total_km * 100)
               in if 50 \<le> pct \<and> ZONE_CONTROL_THRESHOLD_KM s \<le> ckm then
                    let nt = fst ct;
                        changed = (controlled_by_team z \<noteq> Some nt);
                        tu = team_users activities nt;
                        upd = UpdateZone nt (round2 pct)
                                (case tu of [] \<Rightarrow> None
                                 | u # us \<Rightarrow> Some (fst (max_by_value u us)))
                    in Inr (changed,
                            upd # (if changed
                                   then [InsertHistory \<lparr>previous_team = controlled_by_team z,
                                                        new_team = nt\<rparr>]
                                   else []))
                  else Inr (False, []))"

text \<open>The effect of a write on the zone row and on the history table.\<close>

fun apply_write :: "zone \<times> history_entry list \<Rightarrow> db_write \<Rightarrow> zone \<times> history_entry list" where
  "apply_write (z, h) (UpdateZone t p u) =
     ((case u of
         None \<Rightarrow> z\<lparr>controlled_by_team := Some t, control_percentage := p\<rparr>
       | Some uid \<Rightarrow> z\<lparr>controlled_by_team := Some t, control_percentage := p,
                       controlled_by_user := Some uid\<rparr>), h)"
| "apply_write (z, h) (InsertHistory e) = (z, h @ [e])"

text \<open>
  A recalculation run against the stored state: the state after the writes and the
  returned \<open>control_changed\<close> flag.
\<close>

definition run_recalculation ::
  "Settings \<Rightarrow> zone \<times> history_entry list \<Rightarrow> zone_activity list
     \<Rightarrow> py_error + ((zone \<times> history_entry list) \<times> bool)" where
  "run_recalculation s st activities =
     (case recalculate_zone_control s (fst st) activities of
        Inl e \<Rightarrow> Inl e
      | Inr (changed, ws) \<Rightarrow> Inr (foldl apply_write st ws, changed))"





subsection \<open>Distance allocation (\<open>process_activity_zones\<close>)\<close>

definition km_per_zone :: "Settings \<Rightarrow> string list \<Rightarrow> rat \<Rightarrow> bool \<Rightarrow> rat" where
  "km_per_zone s h3_indexes distance is_gym =
     (let k = (if h3_indexes \<noteq> [] then distance / of_nat (length h3_indexes) else 0)
      in if is_gym then k * GYM_ACTIVITY_MULTIPLIER s else k)"

text \<open>
  The \<open>h3_index\<close>, \<open>distance_km\<close> and \<open>points_earned\<close> fields of an entry of
  \<open>affected_zones\<close>; \<open>distance_km\<close> is also the distance of the \<open>zone_activities\<close> row
  inserted for the cell.
\<close>

record affected_zone =
  h3_index :: string
  zone_distance_km :: rat
  points_earned :: int

text \<open>
  The loop of \<open>process_activity_zones\<close> over the cells, for a run in which no database
  call raises. \<open>bonus_multiplier\<close> gives the column of that name of each cell's zone row.
\<close>

definition process_activity_zones ::
  "Settings \<Rightarrow> (string \<Rightarrow> rat) \<Rightarrow> string option \<Rightarrow> string list \<Rightarrow> rat \<Rightarrow> bool
     \<Rightarrow> affected_zone list" where
  "process_activity_zones s bonus_multiplier tid h3_indexes distance is_gym =
     map (\<lambda>h.
            let kpz = km_per_zone s h3_indexes distance is_gym;
                points = py_int (kpz * of_int (ACTIVITY_POINTS_PER_KM s) * bonus_multiplier h);
                points' = (if truthy tid then py_int (of_int points * TEAM_ACTIVITY_BONUS s)
                           else points)
            in \<lparr>h3_index = h, zone_distance_km = kpz, points_earned = points'\<rparr>)
         h3_indexes"

section \<open>Spatial index (app/services/h3_service.py)\<close>

text \<open>
  One pass of the inner \<open>while True\<close> loop of \<open>_decode_polyline\<close>, on the characters not
  yet read: reading past the end of the string raises \<open>IndexError\<close>. Python's integers are
  unbounded and \<open>&\<close>, \<open>|\<close>, \<open><<\<close> act on the infinite two's complement, as the
  operations on \<open>int\<close> do.
\<close>

fun decode_value :: "int \<Rightarrow> nat \<Rightarrow> string \<Rightarrow> py_error + (int \<times> string)" where
  "decode_value result shift [] = Inl IndexError"
| "decode_value result shift (c # cs) =
     (let b = of_char c - 63;
          result' = result OR push_bit shift (b AND 31)
      in if b < 32 then Inr (result', cs) else decode_value result' (shift + 5) cs)"

text \<open>\<open>~(result >> 1) if result & 1 else result >> 1\<close>\<close>

definition un_zigzag :: "int \<Rightarrow> int" where
  "un_zigzag result =
     (if result AND 1 \<noteq> 0 then NOT (drop_bit 1 result) else drop_bit 1 result)"

lemma decode_value_shorter:
  "decode_value result shift s = Inr (r, rest) \<Longrightarrow> length rest < length s"
proof (induction s arbitrary: result shift)
  case Nil
  then show ?case by simp
next
  case (Cons c cs)
  show ?case
  proof (cases "of_char c - 63 < (32 :: int)")
    case True
    with Cons.prems show ?thesis by (simp add: Let_def)
  next
    case False
    with Cons.prems have
      "decode_value (result OR push_bit shift ((of_char c - 63) AND 31)) (shift + 5) cs
         = Inr (r, rest)"
      by (simp add: Let_def)
    from Cons.IH [OF this] show ?thesis by simp
  qed
qed

text \<open>
  The outer loop, \<open>while index < len(polyline)\<close>, on the characters not yet read. The
  point is appended after both values are read; \<open>lat / 1e5\<close> and \<open>lng / 1e5\<close> convert the
  accumulated integers to floats, which can overflow.
\<close>

function decode_loop ::
  "(rat \<times> rat) list \<Rightarrow> int \<Rightarrow> int \<Rightarrow> string \<Rightarrow> py_error + (rat \<times> rat) list" where
  "decode_loop points lat lng s =
     (if s = [] then Inr points
      else case decode_value 0 0 s of
        Inl e \<Rightarrow> Inl e
      | Inr (r1, s1) \<Rightarrow>
          (case decode_value 0 0 s1 of
             Inl e \<Rightarrow> Inl e
           | Inr (r2, s2) \<Rightarrow>
               if float_of_int_overflows (lat + un_zigzag r1)
                  \<or> float_of_int_overflows (lng + un_zigzag r2)
               then Inl OverflowError
               else decode_loop
                 (points @ [(of_int (lat + un_zigzag r1) / 100000,
                             of_int (lng + un_zigzag r2) / 100000)])
                 (lat + un_zigzag r1) (lng + un_zigzag r2) s2))"
  by pat_completeness auto
termination
proof (relation "measure (\<lambda>(points, lat, lng, s). length s)")
  show "wf (measure (\<lambda>(points, lat, lng, s). length s))" by simp
next
  fix points :: "(rat \<times> rat) list" and lat lng :: int and s :: string
    and x2 :: "int \<times> string" and r1 s1 and x2a :: "int \<times> string" and r2 s2
  assume "decode_value 0 0 s = Inr x2" "(r1, s1) = x2"
    "decode_value 0 0 s1 = Inr x2a" "(r2, s2) = x2a"
  then have "length s1 < length s" "length s2 < length s1"
    using decode_value_shorter by metis+
  then show "((points @ [(of_int (lat + un_zigzag r1) / 100000,
                 of_int (lng + un_zigzag r2) / 100000)],
               lat + un_zigzag r1, lng + un_zigzag r2, s2), points, lat, lng, s)
             \<in> measure (\<lambda>(points, lat, lng, s). length s)"
    by simp
qed

declare decode_loop.simps [simp del]

definition decode_polyline :: "string \<Rightarrow> py_error + (rat \<times> rat) list" where
  "decode_polyline polyline = decode_loop [] 0 0 polyline"

text \<open>
  \<open>polyline_to_cells\<close>, over the grid library's \<open>latlng_to_cell\<close> at the service's
  resolution. The cells are collected in a Python \<open>set\<close>, so the result has no duplicates
  and only its elements, not their order, are determined.
\<close>

definition polyline_to_cells ::
  "(rat \<Rightarrow> rat \<Rightarrow> 'c) \<Rightarrow> string \<Rightarrow> py_error + 'c list" where
  "polyline_to_cells lat_lng_to_cell polyline =
     (case decode_polyline polyline of
        Inl e \<Rightarrow> Inl e
      | Inr points \<Rightarrow> Inr (remdups (map (\<lambda>p. lat_lng_to_cell (fst p) (snd p)) points)))"


definition terminator :: "char \<Rightarrow> bool" where
  "terminator c = ((of_char c :: int) - 63 < 32)"

text \<open>
  The ring count of \<open>get_area_cells\<close>, \<open>int((radius_km ** 2) / hex_area) + 1\<close>, and the
  function itself over the grid library's \<open>latlng_to_cell\<close>, \<open>cell_area\<close> and \<open>grid_disk\<close>.
\<close>

definition k_rings :: "rat \<Rightarrow> rat \<Rightarrow> py_error + int" where
  "k_rings radius_km hex_area =
     (if hex_area = 0 then Inl ZeroDivisionError
      else Inr (py_int (radius_km ^ 2 / hex_area) + 1))"

definition get_area_cells ::
  "(rat \<Rightarrow> rat \<Rightarrow> 'c) \<Rightarrow> ('c \<Rightarrow> rat) \<Rightarrow> ('c \<Rightarrow> int \<Rightarrow> 'c list) \<Rightarrow> rat \<Rightarrow> rat \<Rightarrow> rat
     \<Rightarrow> py_error + 'c list" where
  "get_area_cells lat_lng_to_cell cell_area grid_disk center_lat center_lng radius_km =
     (let center_cell = lat_lng_to_cell center_lat center_lng
      in case k_rings radius_km (cell_area center_cell) of
           Inl e \<Rightarrow> Inl e
         | Inr k \<Rightarrow> Inr (grid_disk center_cell k))"

text \<open>
  A string that is empty or ends on a terminator and holds an even number of them: it
  divides into whole latitude/longitude pairs.
\<close>

definition whole_pairs :: "string \<Rightarrow> bool" where
  "whole_pairs s =
     (s = [] \<or> (terminator (last s) \<and> even (length (filter terminator s))))"



section \<open>Activity creation (app/models/activity.py, app/services/activity_processor.py)\<close>

text \<open>Truth value of an \<open>Optional[List[str]]\<close>: \<open>None\<close> and the empty list are falsy.\<close>

definition truthy_list :: "'a list option \<Rightarrow> bool" where
  "truthy_list v = (case v of None \<Rightarrow> False | Some xs \<Rightarrow> xs \<noteq> [])"

text \<open>
  \<open>ActivityCreate.validate_gym_zones(cls, v, info)\<close>, with \<open>is_gym\<close> the value of
  \<open>info.data.get('is_gym_activity')\<close> (the field is declared before \<open>assigned_zones\<close>).
\<close>

definition validate_gym_zones :: "bool \<Rightarrow> string list option \<Rightarrow> py_error + string list option" where
  "validate_gym_zones is_gym v =
     (if is_gym \<and> \<not> truthy_list v then Inl ValueError
      else if \<not> is_gym \<and> truthy_list v then Inl ValueError
      else Inr v)"

text \<open>
  A field of a request body is either absent or given (\<open>null\<close> is a given \<open>None\<close>).
  The validation library runs a \<open>field_validator\<close> on a given value only: for an absent
  field it takes the declared default without validating it, unless the field asks for
  \<open>validate_default\<close>, which \<open>assigned_zones\<close> does not. A \<open>ValueError\<close> of a validator
  is reported as the library's \<open>ValidationError\<close>.
\<close>

datatype 'a field_input = Omitted | Given 'a

datatype validation_error = ValidationError

record ActivityCreate =
  is_gym_activity :: bool
  assigned_zones :: "string list option"

definition validate_field ::
  "bool \<Rightarrow> ('a \<Rightarrow> py_error + 'a) \<Rightarrow> 'a \<Rightarrow> 'a field_input \<Rightarrow> validation_error + 'a" where
  "validate_field validate_default validator dflt inp =
     (case inp of
        Omitted \<Rightarrow>
          if validate_default
          then (case validator dflt of Inl e \<Rightarrow> Inl ValidationError | Inr v \<Rightarrow> Inr v)
          else Inr dflt
      | Given x \<Rightarrow> (case validator x of Inl e \<Rightarrow> Inl ValidationError | Inr v \<Rightarrow> Inr v))"

definition ActivityCreate_validate ::
  "bool \<Rightarrow> string list option field_input \<Rightarrow> validation_error + ActivityCreate" where
  "ActivityCreate_validate is_gym zones_input =
     (case validate_field False (validate_gym_zones is_gym) None zones_input of
        Inl e \<Rightarrow> Inl e
      | Inr v \<Rightarrow> Inr \<lparr>is_gym_activity = is_gym, assigned_zones = v\<rparr>)"

text \<open>
  The cells \<open>create_activity\<close> resolves for a validated activity: assigned zones of a gym
  activity, else the cells of the polyline, else the start cell, else none. A coordinate of
  \<open>0.0\<close> is falsy, like a missing one.
\<close>

definition create_activity_h3_indexes ::
  "(rat \<Rightarrow> rat \<Rightarrow> string) \<Rightarrow> ActivityCreate \<Rightarrow> string option \<Rightarrow> rat option \<Rightarrow> rat option
     \<Rightarrow> py_error + string list" where
  "create_activity_h3_indexes lat_lng_to_cell a polyline start_lat start_lng =
     (if is_gym_activity a \<and> truthy_list (assigned_zones a)
        then Inr (case assigned_zones a of Some zs \<Rightarrow> zs | None \<Rightarrow> [])
      else if truthy polyline
        then polyline_to_cells lat_lng_to_cell (case polyline of Some p \<Rightarrow> p | None \<Rightarrow> [])
      else (case (start_lat, start_lng) of
              (Some la, Some lo) \<Rightarrow>
                if la \<noteq> 0 \<and> lo \<noteq> 0 then Inr [lat_lng_to_cell la lo] else Inr []
            | _ \<Rightarrow> Inr []))"

section \<open>Attack preview (app/api/risk.py)\<close>








section \<open>Teamless windows\<close>

lemma tally_teamless:
  "\<forall>a \<in> set activities. team_id a = None \<Longrightarrow>
     fst (foldl tally_step (tk, uk) activities) = tk"
  by (induction activities arbitrary: tk uk) (simp_all add: tally_step_def Let_def)

lemma team_km_teamless:
  "\<forall>a \<in> set activities. team_id a = None \<Longrightarrow> team_km activities = []"
  by (simp add: team_km_def tally_def tally_teamless)

text \<open>
  C10: when every contribution of the window has no team id, recalculation returns
  \<open>False\<close> and issues no write, so the zone's controller, its control percentage and the
  control-change log stay as they were, whatever the distances are.
\<close>

theorem teamless_window_no_control:
  assumes "\<forall>a \<in> set activities. team_id a = None"
  shows "recalculate_zone_control s z activities = Inr (False, [])
       \<and> run_recalculation s (z, h) activities = Inr ((z, h), False)"
  using assms
  by (simp add: recalculate_zone_control_def run_recalculation_def controlling_team_def
      team_km_teamless)

theorem teamless_window_no_control_witness:
  "run_recalculation settings
        (\<lparr>controlled_by_team = Some ''A'', controlled_by_user = Some ''u9'',
          control_percentage = 75\<rparr>, [])
        [\<lparr>team_id = None, user_id = ''u1'', distance_km = 1000\<rparr>,
         \<lparr>team_id = None, user_id = ''u2'', distance_km = 2500\<rparr>]
     = Inr ((\<lparr>controlled_by_team = Some ''A'', controlled_by_user = Some ''u9'',
              control_percentage = 75\<rparr>, []), False)"
  using teamless_window_no_control
    [of "[\<lparr>team_id = None, user_id = ''u1'', distance_km = 1000\<rparr>,
          \<lparr>team_id = None, user_id = ''u2'', distance_km = 2500\<rparr>]"
        settings
        "\<lparr>controlled_by_team = Some ''A'', controlled_by_user = Some ''u9'',
          control_percentage = 75\<rparr>" "[]"]
  by simp

section \<open>Facts about the Python values\<close>






lemma dict_get_absent: "k \<notin> set (map fst d) \<Longrightarrow> dict_get d k x = x"
  by (induction d) auto



section \<open>The tallies of a window\<close>















section \<open>The shape of a recalculation\<close>



lemma run_recalculation_cases:
  assumes ct: "controlling_team activities = Some ct"
    and tot: "sum_list (map snd (team_km activities)) \<noteq> 0"
  shows "run_recalculation s (z, h) activities =
     (let ckm = controlling_km s z ct;
          pct = min 100 (ckm / sum_list (map snd (team_km activities)) * 100)
      in if 50 \<le> pct \<and> ZONE_CONTROL_THRESHOLD_KM s \<le> ckm
         then Inr ((fst (apply_write (z, h)
                      (UpdateZone (fst ct) (round2 pct)
                         (case team_users activities (fst ct) of [] \<Rightarrow> None
                          | u # us \<Rightarrow> Some (fst (max_by_value u us))))),
                    if controlled_by_team z \<noteq> Some (fst ct)
                    then h @ [\<lparr>previous_team = controlled_by_team z, new_team = fst ct\<rparr>]
                    else h),
                   controlled_by_team z \<noteq> Some (fst ct))
         else Inr ((z, h), False))"
proof -
  have ne: "activities \<noteq> []"
    using ct by (auto simp: controlling_team_def team_km_def tally_def)
  show ?thesis
    using ct tot ne
    by (simp add: run_recalculation_def recalculate_zone_control_def Let_def
        split: option.splits)
qed

lemma run_recalculation_no_team:
  assumes "controlling_team activities = None"
  shows "run_recalculation s (z, h) activities = Inr ((z, h), False)"
  using assms by (simp add: run_recalculation_def recalculate_zone_control_def)

lemma run_recalculation_error:
  assumes "controlling_team activities = Some ct"
    and "sum_list (map snd (team_km activities)) = 0"
  shows "run_recalculation s (z, h) activities = Inl ZeroDivisionError"
proof -
  have ne: "activities \<noteq> []"
    using assms(1) by (auto simp: controlling_team_def team_km_def tally_def)
  show ?thesis using assms ne
    by (simp add: run_recalculation_def recalculate_zone_control_def Let_def)
qed

section \<open>Candidate selection\<close>




section \<open>The commit test\<close>




section \<open>Repeated recalculation\<close>

text \<open>
  C4, as the code has it: after a run that returned, a second run over the same window
  returns \<open>False\<close>, appends no history row and leaves the controlling team and the
  controlling user as the first run left them; the state it leaves is a fixed point of
  further runs; and when the first run reported no change of control, the second run
  leaves the whole zone row as it was. The control percentage itself may move on the
  second run.
\<close>

theorem second_run_keeps_controller:
  assumes run1: "run_recalculation s (z, h) activities = Inr ((z1, h1), c1)"
  shows "\<exists>z2. run_recalculation s (z1, h1) activities = Inr ((z2, h1), False)
          \<and> controlled_by_team z2 = controlled_by_team z1
          \<and> controlled_by_user z2 = controlled_by_user z1
          \<and> run_recalculation s (z2, h1) activities = Inr ((z2, h1), False)
          \<and> (\<not> c1 \<longrightarrow> z2 = z1)"
proof (cases "controlling_team activities")
  case None
  from run1 have "z1 = z" "h1 = h" "\<not> c1"
    by (simp_all add: run_recalculation_no_team [OF None])
  then show ?thesis by (simp add: run_recalculation_no_team [OF None])
next
  case (Some ct)
  have tot: "sum_list (map snd (team_km activities)) \<noteq> 0"
    using run1 run_recalculation_error [OF Some] by fastforce
  note R = run_recalculation_cases [OF Some tot]
  define u where "u = (case team_users activities (fst ct) of [] \<Rightarrow> None
                          | u # us \<Rightarrow> Some (fst (max_by_value u us)))"
  define total where "total = sum_list (map snd (team_km activities))"
  define pb where "pb = min 100 (snd ct * ZONE_DEFENSE_MULTIPLIER s / total * 100)"
  define pr where "pr = min 100 (snd ct / total * 100)"
  define cb where "cb \<longleftrightarrow> 50 \<le> pb \<and> ZONE_CONTROL_THRESHOLD_KM s \<le> snd ct * ZONE_DEFENSE_MULTIPLIER s"
  define cr where "cr \<longleftrightarrow> 50 \<le> pr \<and> ZONE_CONTROL_THRESHOLD_KM s \<le> snd ct"
  define upd where "upd = (\<lambda>p z'. fst (apply_write (z', h) (UpdateZone (fst ct) (round2 p) u)))"
  have inc: "run_recalculation s (z', h') activities =
      (if cb then Inr ((upd pb z', h'), False) else Inr ((z', h'), False))"
    if "controlled_by_team z' = Some (fst ct)" for z' h'
    using that
    by (simp add: R controlling_km_def Let_def u_def total_def pb_def cb_def upd_def)
  have cha: "run_recalculation s (z', h') activities =
      (if cr then Inr ((upd pr z',
                        h' @ [\<lparr>previous_team = controlled_by_team z', new_team = fst ct\<rparr>]), True)
       else Inr ((z', h'), False))"
    if "controlled_by_team z' \<noteq> Some (fst ct)" for z' h'
    using that
    by (simp add: R controlling_km_def Let_def u_def total_def pr_def cr_def upd_def)
  have upd_team: "controlled_by_team (upd p z') = Some (fst ct)" for p z'
    by (cases u) (simp_all add: upd_def)
  have upd_user: "controlled_by_user (upd p (upd q z')) = controlled_by_user (upd q z')" for p q z'
    by (cases u) (simp_all add: upd_def)
  have upd_idem: "upd p (upd p z') = upd p z'" for p z'
    by (cases u) (simp_all add: upd_def)
  have upd_fix: "upd p (upd p z') = upd p z'" for p z'
    by (rule upd_idem)
  show ?thesis
  proof (cases "controlled_by_team z = Some (fst ct)")
    case True
    show ?thesis
    proof (cases cb)
      case True
      with run1 inc [OF \<open>controlled_by_team z = Some (fst ct)\<close>, of h]
      have e: "z1 = upd pb z" "h1 = h" "\<not> c1" by simp_all
      show ?thesis
        using True by (simp add: e inc [OF upd_team] upd_idem)
    next
      case False
      with run1 inc [OF \<open>controlled_by_team z = Some (fst ct)\<close>, of h]
      have e: "z1 = z" "h1 = h" "\<not> c1" by simp_all
      show ?thesis
        using False \<open>controlled_by_team z = Some (fst ct)\<close> by (simp add: e inc)
    qed
  next
    case False
    note nz = False
    show ?thesis
    proof (cases cr)
      case True
      with run1 cha [OF nz, of h]
      have e: "z1 = upd pr z" "c1" by simp_all
      show ?thesis
      proof (cases cb)
        case True
        then show ?thesis
          by (simp add: e inc [OF upd_team] upd_idem upd_team upd_user)
      next
        case False
        then show ?thesis
          by (simp add: e inc [OF upd_team])
      qed
    next
      case False
      with run1 cha [OF nz, of h]
      have e: "z1 = z" "h1 = h" "\<not> c1" by simp_all
      show ?thesis
        using False nz by (simp add: e cha)
    qed
  qed
qed

theorem second_run_keeps_controller_witness:
  "\<exists>z2. run_recalculation settings
           (\<lparr>controlled_by_team = Some ''A'', controlled_by_user = Some ''u1'',
             control_percentage = 60\<rparr>,
            [\<lparr>previous_team = None, new_team = ''A''\<rparr>])
           [\<lparr>team_id = Some ''A'', user_id = ''u1'', distance_km = 6\<rparr>,
            \<lparr>team_id = Some ''B'', user_id = ''u2'', distance_km = 4\<rparr>]
         = Inr ((z2, [\<lparr>previous_team = None, new_team = ''A''\<rparr>]), False)
       \<and> controlled_by_team z2 = Some ''A'' \<and> controlled_by_user z2 = Some ''u1''"
proof -
  let ?w = "[\<lparr>team_id = Some ''A'', user_id = ''u1'', distance_km = 6\<rparr>,
      \<lparr>team_id = Some ''B'', user_id = ''u2'', distance_km = (4 :: rat)\<rparr>]"
  have r: "run_recalculation settings
      (\<lparr>controlled_by_team = None, controlled_by_user = None, control_percentage = 0\<rparr>, []) ?w
     = Inr ((\<lparr>controlled_by_team = Some ''A'', controlled_by_user = Some ''u1'',
              control_percentage = 60\<rparr>, [\<lparr>previous_team = None, new_team = ''A''\<rparr>]), True)"
    by (simp add: run_recalculation_def recalculate_zone_control_def controlling_team_def
      team_km_def user_km_def tally_def tally_step_def controlling_km_def team_users_def
      settings_def round2_def round_half_even_def Let_def)
  from second_run_keeps_controller [OF r] show ?thesis by auto
qed

text \<open>
  A neutral zone and a window in which team \<open>A\<close> has 6 of 10 km: the first run stores 60
  percent, the second run, now with the defense multiplier, stores 72.
\<close>

theorem second_run_raises_percentage:
  "run_recalculation settings
     (\<lparr>controlled_by_team = None, controlled_by_user = None, control_percentage = 0\<rparr>, [])
     [\<lparr>team_id = Some ''A'', user_id = ''u1'', distance_km = 6\<rparr>,
      \<lparr>team_id = Some ''B'', user_id = ''u2'', distance_km = 4\<rparr>]
   = Inr ((\<lparr>controlled_by_team = Some ''A'', controlled_by_user = Some ''u1'',
            control_percentage = 60\<rparr>, [\<lparr>previous_team = None, new_team = ''A''\<rparr>]), True)
   \<and> run_recalculation settings
     (\<lparr>controlled_by_team = Some ''A'', controlled_by_user = Some ''u1'',
       control_percentage = 60\<rparr>, [\<lparr>previous_team = None, new_team = ''A''\<rparr>])
     [\<lparr>team_id = Some ''A'', user_id = ''u1'', distance_km = 6\<rparr>,
      \<lparr>team_id = Some ''B'', user_id = ''u2'', distance_km = 4\<rparr>]
   = Inr ((\<lparr>controlled_by_team = Some ''A'', controlled_by_user = Some ''u1'',
            control_percentage = 72\<rparr>, [\<lparr>previous_team = None, new_team = ''A''\<rparr>]), False)"
  by (simp add: run_recalculation_def recalculate_zone_control_def controlling_team_def
      team_km_def user_km_def tally_def tally_step_def controlling_km_def team_users_def
      settings_def round2_def round_half_even_def Let_def)

section \<open>The defense multiplier\<close>

text \<open>
  C2 at a concrete zone: team \<open>A\<close> controls the zone and has 12 km in the window; team \<open>B\<close>
  has 13 km, more than \<open>A\<close> but not more than 12 km times the defense multiplier
  (14.4 km). Recalculation hands the zone to \<open>B\<close>.
\<close>

theorem incumbent_displaced_within_defense_margin:
  "run_recalculation settings
     (\<lparr>controlled_by_team = Some ''A'', controlled_by_user = Some ''u1'',
       control_percentage = 100\<rparr>, [])
     [\<lparr>team_id = Some ''A'', user_id = ''u1'', distance_km = 12\<rparr>,
      \<lparr>team_id = Some ''B'', user_id = ''u2'', distance_km = 13\<rparr>]
   = Inr ((\<lparr>controlled_by_team = Some ''B'', controlled_by_user = Some ''u2'',
            control_percentage = 52\<rparr>, [\<lparr>previous_team = Some ''A'', new_team = ''B''\<rparr>]), True)
   \<and> (13 :: rat) \<le> 12 * ZONE_DEFENSE_MULTIPLIER settings"
  by (simp add: run_recalculation_def recalculate_zone_control_def controlling_team_def
      team_km_def user_km_def tally_def tally_step_def controlling_km_def team_users_def
      settings_def round2_def round_half_even_def Let_def)

text \<open>
  Replacing the defense multiplier by any other value changes neither the controlling
  team a run leaves, nor the history, nor the returned flag: when the candidate is the
  controller the team stays whatever the test decides, and otherwise the multiplier is
  not used.
\<close>

lemma controller_ignores_defense_multiplier:
  assumes run1: "run_recalculation s (z, h) activities = Inr ((z1, h1), c1)"
  shows "\<exists>z2. run_recalculation (s\<lparr>ZONE_DEFENSE_MULTIPLIER := m\<rparr>) (z, h) activities
                = Inr ((z2, h1), c1)
              \<and> controlled_by_team z2 = controlled_by_team z1"
proof (cases "controlling_team activities")
  case None
  with run1 show ?thesis by (simp add: run_recalculation_no_team)
next
  case (Some ct)
  have tot: "sum_list (map snd (team_km activities)) \<noteq> 0"
    using run1 run_recalculation_error [OF Some] by fastforce
  note R = run_recalculation_cases [OF Some tot]
  show ?thesis
  proof (cases "controlled_by_team z = Some (fst ct)")
    case True
    have t1: "controlled_by_team z1 = Some (fst ct) \<and> h1 = h \<and> \<not> c1"
      using run1 True
      by (auto simp: R Let_def split: if_splits option.splits list.splits)
    have "\<exists>z2. run_recalculation (s\<lparr>ZONE_DEFENSE_MULTIPLIER := m\<rparr>) (z, h) activities
                = Inr ((z2, h), False) \<and> controlled_by_team z2 = Some (fst ct)"
      using True
      by (auto simp: R Let_def split: if_splits option.splits list.splits)
    with t1 show ?thesis by simp
  next
    case False
    then have "run_recalculation (s\<lparr>ZONE_DEFENSE_MULTIPLIER := m\<rparr>) (z, h) activities
        = run_recalculation s (z, h) activities"
      by (simp add: R controlling_km_def Let_def)
    with run1 show ?thesis by simp
  qed
qed

section \<open>Distance allocation\<close>

lemma sum_list_const: "sum_list (map (\<lambda>x. c) xs) = of_nat (length xs) * (c :: rat)"
  by (induction xs) (simp_all add: algebra_simps)

text \<open>
  C1, as the code has it: over a non-empty cell list, every cell gets the total distance
  divided by the number of cells, times the gym multiplier when the activity is
  gym-flagged; so the allocated distances add up to the total distance for a GPS activity
  and to the total distance times the gym multiplier for a gym activity.
\<close>

theorem allocation_splits_equally:
  assumes "h3_indexes \<noteq> []"
  shows "map h3_index (process_activity_zones s bonus_multiplier tid h3_indexes distance is_gym)
           = h3_indexes
       \<and> (\<forall>z \<in> set (process_activity_zones s bonus_multiplier tid h3_indexes distance is_gym).
            zone_distance_km z =
              (if is_gym
               then distance / of_nat (length h3_indexes) * GYM_ACTIVITY_MULTIPLIER s
               else distance / of_nat (length h3_indexes)))
       \<and> sum_list (map zone_distance_km
            (process_activity_zones s bonus_multiplier tid h3_indexes distance is_gym))
           = (if is_gym then distance * GYM_ACTIVITY_MULTIPLIER s else distance)"
proof -
  let ?k = "km_per_zone s h3_indexes distance is_gym"
  have n: "(of_nat (length h3_indexes) :: rat) \<noteq> 0" using assms by simp
  have k: "?k = (if is_gym
               then distance / of_nat (length h3_indexes) * GYM_ACTIVITY_MULTIPLIER s
               else distance / of_nat (length h3_indexes))"
    using assms by (simp add: km_per_zone_def)
  have d: "map zone_distance_km
            (process_activity_zones s bonus_multiplier tid h3_indexes distance is_gym)
           = map (\<lambda>h. ?k) h3_indexes"
    by (simp add: process_activity_zones_def Let_def comp_def)
  have i: "map h3_index (process_activity_zones s bonus_multiplier tid h3_indexes distance is_gym)
           = h3_indexes"
    by (simp add: process_activity_zones_def Let_def comp_def)
  have each: "\<forall>z \<in> set (process_activity_zones s bonus_multiplier tid h3_indexes distance is_gym).
            zone_distance_km z = ?k"
    by (auto simp: process_activity_zones_def Let_def)
  have "sum_list (map (\<lambda>h. ?k) h3_indexes) = of_nat (length h3_indexes) * ?k"
    by (rule sum_list_const)
  also have "\<dots> = (if is_gym then distance * GYM_ACTIVITY_MULTIPLIER s else distance)"
    using n by (simp add: k)
  finally have total: "sum_list (map (\<lambda>h. ?k) h3_indexes)
      = (if is_gym then distance * GYM_ACTIVITY_MULTIPLIER s else distance)" .
  show ?thesis using i each total by (simp only: d k)
qed

theorem allocation_splits_equally_witness:
  "sum_list (map zone_distance_km
      (process_activity_zones settings (\<lambda>h. 1) None [''c1'', ''c2''] 10 False)) = 10"
  using allocation_splits_equally [of "[''c1'', ''c2'']" settings "\<lambda>h. 1" None 10 False]
  by simp

text \<open>A gym activity of 10 km over two cells: each cell gets 4 km, 8 km in all.\<close>

theorem gym_allocation_is_scaled:
  "map zone_distance_km
      (process_activity_zones settings (\<lambda>h. 1) None [''c1'', ''c2''] 10 True) = [4, 4]
   \<and> sum_list (map zone_distance_km
      (process_activity_zones settings (\<lambda>h. 1) None [''c1'', ''c2''] 10 True)) = 8"
  by (simp add: process_activity_zones_def km_per_zone_def settings_def Let_def)

section \<open>Polyline decoding\<close>











text \<open>
  A latitude of 211 characters is beyond the float range: the pair is complete, and the
  division raises; so it does when more characters follow.
\<close>

lemma decode_overflow_example:
  "decode_polyline (replicate 210 CHR ''~'' @ ''??'') = Inl OverflowError
   \<and> whole_pairs (replicate 210 CHR ''~'' @ ''??'')
   \<and> decode_polyline (replicate 210 CHR ''~'' @ ''??~'') = Inl OverflowError"
  by code_simp

section \<open>Ring count\<close>

text \<open>
  The ring count truncates the quotient: for a radius of 0.5 km and a cell area of 0.1
  square km the quotient is 2.5 and three rings are taken, where the ceiling plus one is
  four.
\<close>

lemma k_rings_not_ceiling:
  "k_rings (1 / 2) (1 / 10) = Inr 3 \<and> \<lceil>(1 / 2 :: rat) ^ 2 / (1 / 10)\<rceil> + 1 = 4"
  by code_simp

section \<open>Gym zones validation\<close>

text \<open>For a field that is given, the validator rejects exactly the mismatches.\<close>

lemma validate_given:
  "ActivityCreate_validate is_gym (Given v) = Inl ValidationError \<longleftrightarrow> (is_gym \<longleftrightarrow> \<not> truthy_list v)"
  by (simp add: ActivityCreate_validate_def validate_field_def validate_gym_zones_def)

text \<open>
  C7 at a gym-flagged request body without the key \<open>assigned_zones\<close>: validation accepts
  it, where the same body with \<open>assigned_zones: null\<close> is rejected; the activity is then
  created with no cell.
\<close>

theorem gym_activity_without_zones_accepted:
  "ActivityCreate_validate True Omitted = Inr \<lparr>is_gym_activity = True, assigned_zones = None\<rparr>
   \<and> ActivityCreate_validate True (Given None) = Inl ValidationError
   \<and> create_activity_h3_indexes (\<lambda>lat lng. ''cell'')
        \<lparr>is_gym_activity = True, assigned_zones = None\<rparr> None None None = Inr []"
  by (simp add: ActivityCreate_validate_def validate_field_def validate_gym_zones_def
      truthy_list_def create_activity_h3_indexes_def truthy_def)

section \<open>Attack preview\<close>




end
